theory Spec2Isabelle
  imports Main "HOL-Library.Word"
begin

section \<open>Run-time values\<close>

text \<open>
  The component is TypeScript, and its types are erased when it runs. The body of the
  authentication response is typed \<^verbatim>\<open>any\<close> and flows unchecked into the local state, so
  the values the handlers touch are modelled as ECMAScript values: what
  \<^verbatim>\<open>JSON.parse\<close> can produce, and \<^verbatim>\<open>undefined\<close> for a property that is not there.

  A string that the component only stores, compares with the empty string or puts next to
  another is a plain string here; where the component looks into a string (the initials),
  the string is the list of its 16-bit code units. Numbers are IEEE doubles; the component
  never computes with one, so the type is left opaque and the two things the language does
  with a number here (testing it for zero in a condition, printing it) are functions of
  the \<open>engine\<close>.
\<close>

typedecl jsnumber

datatype jsvalue =
    JUndefined
  | JNull
  | JBool bool
  | JNum jsnumber
  | JStr string
  | JArr "jsvalue list"
  | JObj "(string \<times> jsvalue) list"

text \<open>An \<^verbatim>\<open>Error\<close> object (of any subclass), as far as the component looks at it.\<close>

datatype js_error = JsError (message: string)

text \<open>
  What the host supplies: the number operations, the wording of the
  \<^verbatim>\<open>TypeError\<close>s that the language itself can raise in the component (reading a
  property of \<^verbatim>\<open>null\<close> or \<^verbatim>\<open>undefined\<close>; an object that has no primitive value;
  calling a property that is not a function), which differs between engines, and the
  upper-case mapping of the engine's Unicode tables for the code points from U+0100 on
  (a code point to the code points of its upper case).
\<close>

record engine =
  numberIsZero :: "jsnumber \<Rightarrow> bool"
  numberToString :: "jsnumber \<Rightarrow> string"
  nullishReadMessage :: "jsvalue \<Rightarrow> string \<Rightarrow> string"
  toPrimitiveMessage :: string
  notCallableMessage :: "jsvalue \<Rightarrow> string \<Rightarrow> string"
  upperTable :: "nat \<Rightarrow> nat list"

text \<open>The condition of \<^verbatim>\<open>||\<close>, \<^verbatim>\<open>if\<close> and \<^verbatim>\<open>? :\<close> (ToBoolean).\<close>

fun truthy :: "engine \<Rightarrow> jsvalue \<Rightarrow> bool" where
  "truthy eng JUndefined = False"
| "truthy eng JNull = False"
| "truthy eng (JBool b) = b"
| "truthy eng (JNum n) = (\<not> numberIsZero eng n)"
| "truthy eng (JStr s) = (s \<noteq> [])"
| "truthy eng (JArr xs) = True"
| "truthy eng (JObj kvs) = True"

text \<open>\<^verbatim>\<open>null\<close> or \<^verbatim>\<open>undefined\<close>.\<close>

fun nullish :: "jsvalue \<Rightarrow> bool" where
  "nullish JUndefined = True"
| "nullish JNull = True"
| "nullish v = False"

text \<open>\<^verbatim>\<open>a || b\<close> on values.\<close>

definition or_else :: "engine \<Rightarrow> jsvalue \<Rightarrow> jsvalue \<Rightarrow> jsvalue" where
  "or_else eng a b = (if truthy eng a then a else b)"

text \<open>
  Reading a property, \<^verbatim>\<open>v.p\<close>. On \<^verbatim>\<open>null\<close> and \<^verbatim>\<open>undefined\<close> it raises. On an
  object built by \<^verbatim>\<open>JSON.parse\<close> it finds the own property (the list holds the own
  properties of the parsed object, each key once) or falls through to the prototype; on a
  primitive or an array it goes to the prototype at once. The component reads only
  \<^verbatim>\<open>error\<close>, \<^verbatim>\<open>user\<close>, \<^verbatim>\<open>full_name\<close> and \<^verbatim>\<open>email\<close>, which no built-in prototype
  defines, so the prototype answers \<^verbatim>\<open>undefined\<close>.
\<close>

fun getProp :: "engine \<Rightarrow> jsvalue \<Rightarrow> string \<Rightarrow> js_error + jsvalue" where
  "getProp eng JUndefined p = Inl (JsError (nullishReadMessage eng JUndefined p))"
| "getProp eng JNull p = Inl (JsError (nullishReadMessage eng JNull p))"
| "getProp eng (JObj kvs) p = (case map_of kvs p of Some v \<Rightarrow> Inr v | None \<Rightarrow> Inr JUndefined)"
| "getProp eng v p = Inr JUndefined"

text \<open>Optional chaining, \<^verbatim>\<open>v?.p\<close>: \<^verbatim>\<open>undefined\<close> instead of raising.\<close>

definition getPropOpt :: "engine \<Rightarrow> jsvalue \<Rightarrow> string \<Rightarrow> js_error + jsvalue" where
  "getPropOpt eng v p = (if nullish v then Inr JUndefined else getProp eng v p)"

text \<open>
  Conversion to a string (ToString), which the \<^verbatim>\<open>Error\<close> constructor applies to its
  argument. An array prints its elements separated by commas, \<^verbatim>\<open>null\<close> and
  \<^verbatim>\<open>undefined\<close> elements as nothing. A parsed object prints as
  \<^verbatim>\<open>[object Object]\<close> through the inherited \<^verbatim>\<open>toString\<close>; when it has an own
  property of that name, the property is data and cannot be called, \<^verbatim>\<open>valueOf\<close> gives no
  primitive either, and the conversion raises.
\<close>

fun ToString :: "engine \<Rightarrow> jsvalue \<Rightarrow> js_error + string"
  and join_comma :: "engine \<Rightarrow> jsvalue list \<Rightarrow> js_error + string" where
  "ToString eng JUndefined = Inr ''undefined''"
| "ToString eng JNull = Inr ''null''"
| "ToString eng (JBool b) = Inr (if b then ''true'' else ''false'')"
| "ToString eng (JNum n) = Inr (numberToString eng n)"
| "ToString eng (JStr s) = Inr s"
| "ToString eng (JArr xs) = join_comma eng xs"
| "ToString eng (JObj kvs) =
     (if map_of kvs ''toString'' = None then Inr ''[object Object]''
      else Inl (JsError (toPrimitiveMessage eng)))"
| "join_comma eng [] = Inr []"
| "join_comma eng (x # xs) =
     (case (if nullish x then Inr [] else ToString eng x) of
        Inl e \<Rightarrow> Inl e
      | Inr a \<Rightarrow>
          (case xs of
             [] \<Rightarrow> Inr a
           | _ # _ \<Rightarrow> (case join_comma eng xs of Inl e \<Rightarrow> Inl e | Inr b \<Rightarrow> Inr (a @ '','' @ b))))"

text \<open>\<^verbatim>\<open>new Error(message)\<close>: \<open>Inl\<close> when converting the message raises.\<close>

definition new_Error :: "engine \<Rightarrow> jsvalue \<Rightarrow> js_error + js_error" where
  "new_Error eng msg =
     (case msg of
        JUndefined \<Rightarrow> Inr (JsError [])
      | _ \<Rightarrow> (case ToString eng msg of Inl e \<Rightarrow> Inl e | Inr m \<Rightarrow> Inr (JsError m)))"


section \<open>Data model\<close>

text \<open>
  \<^verbatim>\<open>interface UserData\<close>. Every field holds a run-time value: the declared type is
  \<^verbatim>\<open>string\<close> (\<^verbatim>\<open>string | null\<close> and optional for the avatar), but the sign-in handler
  stores fields of the untyped response here.
\<close>

record UserData =
  name :: jsvalue
  email :: jsvalue
  phone :: jsvalue
  joinDate :: jsvalue
  experienceLevel :: jsvalue
  favoriteMethod :: jsvalue
  avatar :: jsvalue

text \<open>\<^verbatim>\<open>keyof UserData\<close>, with \<^verbatim>\<open>data[key]\<close> and \<^verbatim>\<open>{ ...data, [key]: v }\<close>.\<close>

datatype UserData_key =
  Key_name | Key_email | Key_phone | Key_joinDate | Key_experienceLevel
  | Key_favoriteMethod | Key_avatar

fun get_field :: "UserData_key \<Rightarrow> UserData \<Rightarrow> jsvalue" where
  "get_field Key_name d = name d"
| "get_field Key_email d = email d"
| "get_field Key_phone d = phone d"
| "get_field Key_joinDate d = joinDate d"
| "get_field Key_experienceLevel d = experienceLevel d"
| "get_field Key_favoriteMethod d = favoriteMethod d"
| "get_field Key_avatar d = avatar d"

fun spread_with :: "UserData \<Rightarrow> UserData_key \<Rightarrow> jsvalue \<Rightarrow> UserData" where
  "spread_with d Key_name v = d\<lparr>name := v\<rparr>"
| "spread_with d Key_email v = d\<lparr>email := v\<rparr>"
| "spread_with d Key_phone v = d\<lparr>phone := v\<rparr>"
| "spread_with d Key_joinDate v = d\<lparr>joinDate := v\<rparr>"
| "spread_with d Key_experienceLevel v = d\<lparr>experienceLevel := v\<rparr>"
| "spread_with d Key_favoriteMethod v = d\<lparr>favoriteMethod := v\<rparr>"
| "spread_with d Key_avatar v = d\<lparr>avatar := v\<rparr>"

datatype activity_type = scan | achievement | alert

datatype status_color = green | yellow | red | blue

record ActivityItem =
  item_id :: int
  item_type :: activity_type
  title :: string
  time :: string
  status :: string
  statusColor :: status_color

text \<open>
  \<^verbatim>\<open>interface ProfileTabProps\<close>: every prop may be absent. A callback is the parent's
  function; the component only tests that it is there and calls it, so it is an opaque
  \<open>'cb\<close>.
\<close>

record 'cb ProfileTabProps =
  userData :: "UserData option"
  onUpdateProfile :: "'cb option"
  onUpdateAvatar :: "'cb option"
  activityData :: "ActivityItem list option"
  personalizedTip :: "string option"

text \<open>The four \<^verbatim>\<open>useState\<close> cells.\<close>

record ui_state =
  isEditing :: bool
  localUserData :: UserData
  formError :: "string option"
  isAuthLoading :: bool

definition defaultUserData :: UserData where
  "defaultUserData =
     \<lparr>name = JStr ''Juan Dela Cruz'',
      email = JStr ''juan.delacruz@shroomify.com'',
      phone = JStr ''+63 912 345 6789'',
      joinDate = JStr ''January 2024'',
      experienceLevel = JStr ''Intermediate'',
      favoriteMethod = JStr ''Straw Substrate'',
      avatar = JNull\<rparr>"

text \<open>The state of the first render: a default parameter applies when the prop is absent.\<close>

definition initial_state :: "'cb ProfileTabProps \<Rightarrow> ui_state" where
  "initial_state props =
     \<lparr>isEditing = False,
      localUserData = (case userData props of None \<Rightarrow> defaultUserData | Some u \<Rightarrow> u),
      formError = None,
      isAuthLoading = False\<rparr>"

section \<open>Profile edits\<close>

text \<open>
  \<^verbatim>\<open>handleProfileUpdate\<close>. The result is the new state and the calls made to the parent,
  each with the callback called and its argument.
\<close>

definition handleProfileUpdate ::
  "'cb ProfileTabProps \<Rightarrow> UserData_key \<Rightarrow> string \<Rightarrow> ui_state \<Rightarrow> ui_state \<times> ('cb \<times> UserData) list" where
  "handleProfileUpdate props field v s =
     (let updatedData = spread_with (localUserData s) field (JStr v);
          s' = s\<lparr>localUserData := updatedData\<rparr>
      in (s', case onUpdateProfile props of None \<Rightarrow> [] | Some cb \<Rightarrow> [(cb, updatedData)]))"

section \<open>Initials\<close>

text \<open>
  \<^verbatim>\<open>getInitials\<close> looks into the string, so there a string is what the language has: a
  sequence of 16-bit code units (UTF-16). A string of the state is read as code units
  character by character, each character standing for the code unit of its number.
\<close>

type_synonym code_unit = "16 word"

type_synonym jsstring = "code_unit list"

definition code_units :: "string \<Rightarrow> jsstring" where
  "code_units s = map (\<lambda>c. of_nat (of_char c)) s"

text \<open>
  \<^verbatim>\<open>String.prototype.split\<close> with a separator of one code unit: the pieces between the
  occurrences of the separator, empty pieces included, so a string with \<open>k\<close> separators
  gives \<open>k + 1\<close> pieces.
\<close>

fun js_split :: "code_unit \<Rightarrow> jsstring \<Rightarrow> jsstring list" where
  "js_split sep [] = [[]]"
| "js_split sep (c # cs) =
     (if c = sep then [] # js_split sep cs
      else (case js_split sep cs of [] \<Rightarrow> [[c]] | t # ts \<Rightarrow> (c # t) # ts))"

text \<open>\<^verbatim>\<open>n[0]\<close>: the first code unit as a string, \<^verbatim>\<open>undefined\<close> (\<open>None\<close>) on the empty string.\<close>

fun first_unit :: "jsstring \<Rightarrow> jsstring option" where
  "first_unit [] = None"
| "first_unit (c # cs) = Some [c]"

text \<open>\<^verbatim>\<open>join('')\<close> on strings and \<^verbatim>\<open>undefined\<close>s: an \<^verbatim>\<open>undefined\<close> element adds nothing.\<close>

fun join_empty :: "jsstring option list \<Rightarrow> jsstring" where
  "join_empty [] = []"
| "join_empty (None # xs) = join_empty xs"
| "join_empty (Some s # xs) = s @ join_empty xs"

text \<open>
  \<^verbatim>\<open>String.prototype.toUpperCase\<close>, as the language defines it: the string is read as
  code points (a leading surrogate followed by a trailing one is one code point, any other
  code unit is its own), every code point is replaced by its upper-case mapping, and the
  code points are written back as code units.
\<close>

fun StringToCodePoints :: "jsstring \<Rightarrow> nat list" where
  "StringToCodePoints [] = []"
| "StringToCodePoints [u] = [unat u]"
| "StringToCodePoints (u # v # rest) =
     (if 0xD800 \<le> u \<and> u \<le> 0xDBFF \<and> 0xDC00 \<le> v \<and> v \<le> 0xDFFF
      then (0x10000 + (unat u - 0xD800) * 0x400 + (unat v - 0xDC00)) # StringToCodePoints rest
      else unat u # StringToCodePoints (v # rest))"

definition UTF16EncodeCodePoint :: "nat \<Rightarrow> jsstring" where
  "UTF16EncodeCodePoint cp =
     (if cp \<le> 0xFFFF then [of_nat cp]
      else [of_nat ((cp - 0x10000) div 0x400 + 0xD800),
            of_nat ((cp - 0x10000) mod 0x400 + 0xDC00)])"

definition CodePointsToString :: "nat list \<Rightarrow> jsstring" where
  "CodePointsToString cps = concat (map UTF16EncodeCodePoint cps)"

text \<open>
  The upper-case mapping of a code point. Below U+0100 it is written out: the letters \<open>a\<close>
  to \<open>z\<close>; the micro sign, whose capital is the Greek \<open>U+039C\<close>; the sharp s \<open>U+00DF\<close>, whose
  upper case is the two letters \<open>SS\<close>; the accented letters \<open>U+00E0\<close> to \<open>U+00FE\<close> without
  the division sign; and \<open>U+00FF\<close>, whose capital is \<open>U+0178\<close>. From U+0100 on it is the
  engine's table.
\<close>

definition Uppercase_Mapping :: "engine \<Rightarrow> nat \<Rightarrow> nat list" where
  "Uppercase_Mapping eng cp =
     (if 0x61 \<le> cp \<and> cp \<le> 0x7A then [cp - 0x20]
      else if cp = 0xB5 then [0x39C]
      else if cp = 0xDF then [0x53, 0x53]
      else if 0xE0 \<le> cp \<and> cp \<le> 0xFE \<and> cp \<noteq> 0xF7 then [cp - 0x20]
      else if cp = 0xFF then [0x178]
      else if cp < 0x100 then [cp]
      else upperTable eng cp)"

definition toUpperCase :: "engine \<Rightarrow> jsstring \<Rightarrow> jsstring" where
  "toUpperCase eng s =
     CodePointsToString (concat (map (Uppercase_Mapping eng) (StringToCodePoints s)))"

definition getInitials :: "engine \<Rightarrow> jsstring \<Rightarrow> jsstring" where
  "getInitials eng nm = toUpperCase eng (join_empty (map first_unit (js_split 0x20 nm)))"

text \<open>
  The initials as the specification words them, for comparison: the name is cut at
  whitespace characters (space, tab, line feed, vertical tab, form feed, carriage return),
  the tokens are the non-empty pieces, each token gives its first character in upper
  case, and these are put together in order.
\<close>

definition is_whitespace :: "code_unit \<Rightarrow> bool" where
  "is_whitespace c = (c \<in> set [0x20, 0x09, 0x0A, 0x0B, 0x0C, 0x0D])"

fun whitespace_split :: "jsstring \<Rightarrow> jsstring list" where
  "whitespace_split [] = [[]]"
| "whitespace_split (c # cs) =
     (if is_whitespace c then [] # whitespace_split cs
      else (case whitespace_split cs of [] \<Rightarrow> [[c]] | t # ts \<Rightarrow> (c # t) # ts))"

definition whitespace_tokens :: "jsstring \<Rightarrow> jsstring list" where
  "whitespace_tokens s = filter (\<lambda>t. t \<noteq> []) (whitespace_split s)"

definition spec_getInitials :: "engine \<Rightarrow> jsstring \<Rightarrow> jsstring" where
  "spec_getInitials eng nm = concat (map (\<lambda>t. toUpperCase eng (take 1 t)) (whitespace_tokens nm))"

text \<open>
  Putting pieces together again with a separating code unit between them
  (\<^verbatim>\<open>Array.prototype.join\<close> on strings): with it, the pieces of a split are told apart
  from any other list of strings.
\<close>

fun join_sep :: "code_unit \<Rightarrow> jsstring list \<Rightarrow> jsstring" where
  "join_sep sep [] = []"
| "join_sep sep (p # ps) = p @ concat (map (\<lambda>q. sep # q) ps)"

text \<open>
  The avatar slot of the profile card: the image when \<^verbatim>\<open>localUserData.avatar\<close> is truthy,
  else the initials of \<^verbatim>\<open>localUserData.name\<close>. Calling \<^verbatim>\<open>split\<close> on a name that is not a
  string raises.
\<close>

datatype avatar_view = Image jsvalue | Placeholder jsstring

definition renderAvatar :: "engine \<Rightarrow> ui_state \<Rightarrow> js_error + avatar_view" where
  "renderAvatar eng s =
     (if truthy eng (avatar (localUserData s)) then Inr (Image (avatar (localUserData s)))
      else (case name (localUserData s) of
              JStr nm \<Rightarrow> Inr (Placeholder (getInitials eng (code_units nm)))
            | JUndefined \<Rightarrow> Inl (JsError (nullishReadMessage eng JUndefined ''split''))
            | JNull \<Rightarrow> Inl (JsError (nullishReadMessage eng JNull ''split''))
            | v \<Rightarrow> Inl (JsError (notCallableMessage eng v ''split''))))"


section \<open>Activity feed\<close>

datatype icon = Camera | Trophy | Target

text \<open>
  The two lookup tables are object literals indexed by the key. A key that the table does
  not hold gives \<^verbatim>\<open>undefined\<close> (\<open>None\<close>).
\<close>

definition iconMap :: "(activity_type \<times> icon) list" where
  "iconMap = [(scan, Camera), (achievement, Trophy), (alert, Target)]"

text \<open>The element \<^verbatim>\<open><IconComponent className="w-4 h-4" />\<close>.\<close>

record icon_element =
  component :: "icon option"
  className :: string

definition getActivityIcon :: "activity_type \<Rightarrow> icon_element" where
  "getActivityIcon t = \<lparr>component = map_of iconMap t, className = ''w-4 h-4''\<rparr>"

record palette =
  bg :: string
  text_class :: string
  iconBg :: string

definition colorMap :: "(status_color \<times> palette) list" where
  "colorMap =
     [(green, \<lparr>bg = ''bg-green-600/20'', text_class = ''text-green-400'', iconBg = ''bg-green-600/20''\<rparr>),
      (yellow, \<lparr>bg = ''bg-yellow-600/20'', text_class = ''text-yellow-400'', iconBg = ''bg-yellow-600/20''\<rparr>),
      (red, \<lparr>bg = ''bg-red-600/20'', text_class = ''text-red-400'', iconBg = ''bg-red-600/20''\<rparr>),
      (blue, \<lparr>bg = ''bg-blue-600/20'', text_class = ''text-blue-400'', iconBg = ''bg-blue-600/20''\<rparr>)]"

definition getStatusColorClasses :: "status_color \<Rightarrow> palette option" where
  "getStatusColorClasses color = map_of colorMap color"

text \<open>
  One row of the feed, as the body of \<^verbatim>\<open>activityData.map\<close> builds it: the class of the
  icon box, the class of the span around the icon, the icon, the two text lines, and the
  status badge. Reading a class of a missing palette raises (\<open>None\<close>).
\<close>

record activity_row =
  row_key :: int
  iconBoxClass :: string
  iconSpanClass :: string
  row_icon :: icon_element
  row_title :: string
  row_time :: string
  badgeClass :: string
  badgeText :: string

definition renderActivity :: "ActivityItem \<Rightarrow> activity_row option" where
  "renderActivity activity =
     (case getStatusColorClasses (statusColor activity) of
        None \<Rightarrow> None
      | Some statusColors \<Rightarrow>
          Some \<lparr>row_key = item_id activity,
                iconBoxClass = ''w-8 h-8 '' @ iconBg statusColors
                               @ '' rounded-full flex items-center justify-center'',
                iconSpanClass = text_class statusColors,
                row_icon = getActivityIcon (item_type activity),
                row_title = title activity,
                row_time = time activity,
                badgeClass = bg statusColors @ '' '' @ text_class statusColors
                             @ '' px-2 py-1 rounded text-xs'',
                badgeText = status activity\<rparr>)"

section \<open>Sign-in\<close>

text \<open>
  The request handed to \<^verbatim>\<open>fetch\<close>. The body is the text \<^verbatim>\<open>JSON.stringify\<close> makes of
  a value; it is kept as that value.
\<close>

datatype json_text = JSON_stringify jsvalue

record request =
  req_url :: string
  req_method :: string
  req_headers :: "(string \<times> string) list"
  req_body :: json_text

text \<open>
  What the handler sees of a response: the \<^verbatim>\<open>ok\<close> flag, and what awaiting
  \<^verbatim>\<open>response.json()\<close> gives, the parsed body or the rejection. The network is a function
  from the request to the response or to the rejection of \<^verbatim>\<open>fetch\<close>.
\<close>

record response =
  ok :: bool
  json :: "js_error + jsvalue"

type_synonym network = "request \<Rightarrow> js_error + response"

definition fallback_message :: string where
  "fallback_message = ''Google login failed. Please try again.''"

text \<open>The argument of the \<^verbatim>\<open>fetch\<close> call.\<close>

definition google_request :: "string \<Rightarrow> request" where
  "google_request idToken =
     \<lparr>req_url = ''/api/auth/google'',
      req_method = ''POST'',
      req_headers = [(''Content-Type'', ''application/json'')],
      req_body = JSON_stringify (JObj [(''id_token'', JStr idToken)])\<rparr>"

text \<open>
  The \<^verbatim>\<open>try\<close> block. It gives the error it raised, if any, the state after the setter
  calls it made, and the requests it issued. \<open>s\<close> is the state of the render that created
  the handler: \<^verbatim>\<open>localUserData\<close> in the block is the value of that render.
\<close>

definition try_block ::
  "engine \<Rightarrow> network \<Rightarrow> string \<Rightarrow> ui_state \<Rightarrow> js_error option \<times> ui_state \<times> request list" where
  "try_block eng fetch idToken s =
     (let s1 = s\<lparr>isAuthLoading := True\<rparr>;
          s2 = s1\<lparr>formError := None\<rparr>;
          req = google_request idToken
      in case fetch req of
           Inl e \<Rightarrow> (Some e, s2, [req])
         | Inr response \<Rightarrow>
             (case json response of
                Inl e \<Rightarrow> (Some e, s2, [req])
              | Inr result \<Rightarrow>
                  if \<not> ok response then
                    (case getPropOpt eng result ''error'' of
                       Inl e \<Rightarrow> (Some e, s2, [req])
                     | Inr err \<Rightarrow>
                         (case new_Error eng (or_else eng err (JStr fallback_message)) of
                            Inl e \<Rightarrow> (Some e, s2, [req])
                          | Inr e \<Rightarrow> (Some e, s2, [req])))
                  else
                    (case getProp eng result ''user'' of
                       Inl e \<Rightarrow> (Some e, s2, [req])
                     | Inr user \<Rightarrow>
                         (case getProp eng user ''full_name'' of
                            Inl e \<Rightarrow> (Some e, s2, [req])
                          | Inr full_name \<Rightarrow>
                              (case getProp eng user ''email'' of
                                 Inl e \<Rightarrow> (Some e, s2, [req])
                               | Inr user_email \<Rightarrow>
                                   (None,
                                    s2\<lparr>localUserData :=
                                         \<lparr>name = full_name,
                                          email = user_email,
                                          phone = phone (localUserData s),
                                          joinDate = joinDate (localUserData s),
                                          experienceLevel = experienceLevel (localUserData s),
                                          favoriteMethod = favoriteMethod (localUserData s),
                                          avatar = avatar (localUserData s)\<rparr>\<rparr>,
                                    [req]))))))"

text \<open>The \<^verbatim>\<open>catch\<close> clause: \<^verbatim>\<open>setFormError(error?.message || '...')\<close>.\<close>

definition catch_block :: "js_error \<Rightarrow> ui_state \<Rightarrow> js_error option \<times> ui_state" where
  "catch_block error s =
     (None, s\<lparr>formError := Some (if message error \<noteq> [] then message error else fallback_message)\<rparr>)"

text \<open>The \<^verbatim>\<open>finally\<close> clause.\<close>

definition finally_block :: "ui_state \<Rightarrow> js_error option \<times> ui_state" where
  "finally_block s = (None, s\<lparr>isAuthLoading := False\<rparr>)"

text \<open>
  \<^verbatim>\<open>handleGoogleLogin\<close>: the \<^verbatim>\<open>try\<close> block; on an error the \<^verbatim>\<open>catch\<close> clause; then the
  \<^verbatim>\<open>finally\<close> clause, whose own error, if it raised one, would replace the outcome so far.
  The first component is the error that leaves the handler (the rejection of the promise
  it returns), \<open>None\<close> when it returns normally.
\<close>

definition handleGoogleLogin ::
  "engine \<Rightarrow> network \<Rightarrow> string \<Rightarrow> ui_state \<Rightarrow> js_error option \<times> ui_state \<times> request list" where
  "handleGoogleLogin eng fetch idToken s =
     (case try_block eng fetch idToken s of
        (thrown, s1, reqs) \<Rightarrow>
          (case (case thrown of None \<Rightarrow> (None, s1) | Some error \<Rightarrow> catch_block error s1) of
             (pending, s2) \<Rightarrow>
               (case finally_block s2 of
                  (None, s3) \<Rightarrow> (pending, s3, reqs)
                | (Some e, s3) \<Rightarrow> (Some e, s3, reqs))))"

text \<open>
  A parsed body without a usable \<^verbatim>\<open>user\<close>: the body is not an object with own
  properties, or it has no \<^verbatim>\<open>user\<close> property, or that property is \<^verbatim>\<open>null\<close>.
\<close>

definition no_user :: "jsvalue \<Rightarrow> bool" where
  "no_user result =
     (case result of
        JObj kvs \<Rightarrow> (case map_of kvs ''user'' of None \<Rightarrow> True | Some u \<Rightarrow> nullish u)
      | _ \<Rightarrow> True)"


section \<open>Sample inputs\<close>

text \<open>
  An engine (its messages are worded after V8's, without the quotation marks and the
  receiver; its table holds the one entry beyond U+00FF that the examples use, the Deseret
  letter \<open>U+10428\<close> with its capital \<open>U+10400\<close>), a state, and networks that answer every
  request alike.
\<close>

definition sample_engine :: engine where
  "sample_engine =
     \<lparr>numberIsZero = (\<lambda>n. False),
      numberToString = (\<lambda>n. ''1''),
      nullishReadMessage =
        (\<lambda>v p. ''Cannot read properties of '' @ (case v of JNull \<Rightarrow> ''null'' | _ \<Rightarrow> ''undefined'')
                @ '' (reading '' @ p @ '')''),
      toPrimitiveMessage = ''Cannot convert object to primitive value'',
      notCallableMessage = (\<lambda>v p. p @ '' is not a function''),
      upperTable = (\<lambda>cp. if cp = 0x10428 then [0x10400] else [cp])\<rparr>"

definition sample_state :: ui_state where
  "sample_state =
     \<lparr>isEditing = False, localUserData = defaultUserData, formError = None,
      isAuthLoading = False\<rparr>"

definition respond :: "response \<Rightarrow> network" where
  "respond r req = Inr r"

definition sample_props :: "nat ProfileTabProps" where
  "sample_props =
     \<lparr>userData = None, onUpdateProfile = Some 0, onUpdateAvatar = None,
      activityData = None, personalizedTip = None\<rparr>"

section \<open>Auxiliary facts\<close>

subsection \<open>Initials\<close>

lemmas initials_eval =
  getInitials_def code_units_def toUpperCase_def CodePointsToString_def
  Uppercase_Mapping_def UTF16EncodeCodePoint_def

lemma join_empty_first_unit:
  "join_empty (map first_unit ts) = concat (map (take 1) ts)"
proof (induction ts)
  case Nil
  show ?case by simp
next
  case (Cons t ts)
  then show ?case by (cases t) simp_all
qed

lemma js_split_no_sep: "sep \<notin> set s \<Longrightarrow> js_split sep s = [s]"
  by (induction s) auto

lemma js_split_not_Nil: "js_split sep s \<noteq> []"
  by (cases s) (auto split: list.splits)

lemma join_sep_js_split: "join_sep sep (js_split sep s) = s"
proof (induction s)
  case Nil
  show ?case by simp
next
  case (Cons c cs)
  obtain t ts where ts: "js_split sep cs = t # ts"
    using js_split_not_Nil [of sep cs] by (cases "js_split sep cs") auto
  with Cons show ?case by auto
qed

lemma js_split_pieces_no_sep: "list_all (\<lambda>p. sep \<notin> set p) (js_split sep s)"
  by (induction s) (auto split: list.splits)

lemma concat_js_split: "concat (js_split sep s) = filter (\<lambda>c. c \<noteq> sep) s"
  by (induction s) (auto split: list.splits)

lemma first_units_subset: "set (concat (map (take 1) ps)) \<subseteq> set (concat ps)"
  by (induction ps) (auto dest: in_set_takeD)

lemma js_split_first_units_subset:
  "set (concat (map (take 1) (js_split sep s))) \<subseteq> set s"
  using first_units_subset [of "js_split sep s"] by (auto simp add: concat_js_split)

lemma toUpperCase_Nil: "toUpperCase eng [] = []"
  by (simp add: toUpperCase_def CodePointsToString_def)

lemma toUpperCase_single:
  "toUpperCase eng [u] = CodePointsToString (Uppercase_Mapping eng (unat u))"
  by (simp add: toUpperCase_def)

lemma StringToCodePoints_ascii:
  "list_all (\<lambda>u. u < 0x80) s \<Longrightarrow> StringToCodePoints s = map unat s"
proof (induction s rule: StringToCodePoints.induct)
  case (3 u v rest)
  then have "u < 0x80" by simp
  then have "\<not> 0xD800 \<le> u" by (simp add: word_less_nat_alt word_le_nat_alt)
  with 3 show ?case by simp
qed simp_all

lemma ascii_unit_upper:
  assumes "u < (0x80 :: code_unit)"
  shows "CodePointsToString (Uppercase_Mapping eng (unat u)) =
           [if 0x61 \<le> u \<and> u \<le> 0x7A then u - 0x20 else u]"
proof -
  have n: "unat u < 128" using assms by (simp add: word_less_nat_alt)
  show ?thesis
  proof (cases "0x61 \<le> u \<and> u \<le> 0x7A")
    case True
    then have r: "97 \<le> unat u" "unat u \<le> 122" by (simp_all add: word_le_nat_alt)
    then have "of_nat (unat u - 32) = u - (32 :: code_unit)"
      by (simp add: of_nat_diff)
    with True r show ?thesis
      by (simp add: CodePointsToString_def Uppercase_Mapping_def UTF16EncodeCodePoint_def)
  next
    case False
    then have "\<not> (97 \<le> unat u \<and> unat u \<le> 122)" by (simp add: word_le_nat_alt)
    with False n show ?thesis
      by (simp add: CodePointsToString_def Uppercase_Mapping_def UTF16EncodeCodePoint_def)
  qed
qed

lemma toUpperCase_ascii:
  "list_all (\<lambda>u. u < 0x80) s \<Longrightarrow>
     toUpperCase eng s = map (\<lambda>u. if 0x61 \<le> u \<and> u \<le> 0x7A then u - 0x20 else u) s"
proof (induction s)
  case Nil
  show ?case by (simp add: toUpperCase_Nil)
next
  case (Cons u s)
  then have "list_all (\<lambda>u. u < 0x80) (u # s)" and "list_all (\<lambda>u. u < 0x80) s" and u: "u < 0x80"
    by simp_all
  then have "toUpperCase eng (u # s) =
      CodePointsToString (Uppercase_Mapping eng (unat u)) @ toUpperCase eng s"
    by (simp add: toUpperCase_def StringToCodePoints_ascii CodePointsToString_def)
  with Cons show ?case
    by (simp add: ascii_unit_upper [OF u])
qed

lemma map_first_units:
  "map f (concat (map (take 1) ps)) = map (\<lambda>t. f (hd t)) (filter (\<lambda>t. t \<noteq> []) ps)"
proof (induction ps)
  case Nil
  show ?case by simp
next
  case (Cons t ps)
  then show ?case by (cases t) simp_all
qed

lemma getInitials_unfold:
  "getInitials eng nm = toUpperCase eng (concat (map (take 1) (js_split 0x20 nm)))"
  by (simp add: getInitials_def join_empty_first_unit)

lemma initials_of_default_name:
  "getInitials eng (code_units ''Juan Dela Cruz'') = [0x4A, 0x44, 0x43]"
  by (simp add: initials_eval)

subsection \<open>Profile edits\<close>

lemma get_field_spread_with_same: "get_field k (spread_with d k v) = v"
  by (cases k) simp_all

lemma get_field_spread_with_other: "k' \<noteq> k \<Longrightarrow> get_field k' (spread_with d k v) = get_field k' d"
  by (cases k; cases k') simp_all

lemma handleProfileUpdate_state:
  "fst (handleProfileUpdate props field v s) =
     s\<lparr>localUserData := spread_with (localUserData s) field (JStr v)\<rparr>"
  by (simp add: handleProfileUpdate_def Let_def)

subsection \<open>Sign-in\<close>

lemma try_block_requests:
  "snd (snd (try_block eng fetch idToken s)) = [google_request idToken]"
  by (simp add: try_block_def Let_def split: sum.splits)

lemma handleGoogleLogin_unfold:
  assumes "try_block eng fetch idToken s = (thrown, s1, reqs)"
  shows "handleGoogleLogin eng fetch idToken s =
           (None,
            (case thrown of
               None \<Rightarrow> s1
             | Some e \<Rightarrow>
                 s1\<lparr>formError := Some (if message e \<noteq> [] then message e else fallback_message)\<rparr>)
              \<lparr>isAuthLoading := False\<rparr>,
            reqs)"
  using assms
  by (cases thrown) (simp_all add: handleGoogleLogin_def catch_block_def finally_block_def)

lemma handleGoogleLogin_returns:
  "fst (handleGoogleLogin eng fetch idToken s) = None"
  by (cases "try_block eng fetch idToken s") (simp add: handleGoogleLogin_unfold)

lemma handleGoogleLogin_requests:
  "snd (snd (handleGoogleLogin eng fetch idToken s)) = [google_request idToken]"
  using try_block_requests [of eng fetch idToken s]
  by (cases "try_block eng fetch idToken s") (simp add: handleGoogleLogin_unfold)

lemma handleGoogleLogin_loading:
  "isAuthLoading (fst (snd (handleGoogleLogin eng fetch idToken s))) = False"
  by (cases "try_block eng fetch idToken s") (simp add: handleGoogleLogin_unfold)

lemma try_block_ok_user:
  assumes "fetch (google_request idToken) = Inr response" and "ok response"
    and "json response = Inr result" and "getProp eng result ''user'' = Inr user"
    and "getProp eng user ''full_name'' = Inr full_name"
    and "getProp eng user ''email'' = Inr user_email"
  shows "try_block eng fetch idToken s =
           (None,
            s\<lparr>isAuthLoading := True, formError := None,
              localUserData :=
                \<lparr>name = full_name, email = user_email,
                 phone = phone (localUserData s),
                 joinDate = joinDate (localUserData s),
                 experienceLevel = experienceLevel (localUserData s),
                 favoriteMethod = favoriteMethod (localUserData s),
                 avatar = avatar (localUserData s)\<rparr>\<rparr>,
            [google_request idToken])"
  using assms by (simp add: try_block_def)


lemma try_block_parse_failure:
  assumes "fetch (google_request idToken) = Inr response" and "json response = Inl e"
  shows "try_block eng fetch idToken s =
           (Some e, s\<lparr>isAuthLoading := True, formError := None\<rparr>, [google_request idToken])"
  using assms by (simp add: try_block_def)

lemma try_block_no_user:
  assumes "fetch (google_request idToken) = Inr response" and "ok response"
    and "json response = Inr result" and "no_user result"
  shows "\<exists>e. try_block eng fetch idToken s =
           (Some e, s\<lparr>isAuthLoading := True, formError := None\<rparr>, [google_request idToken])"
proof (cases result)
  case (JObj kvs)
  show ?thesis
  proof (cases "map_of kvs ''user''")
    case None
    with JObj assms show ?thesis by (simp add: try_block_def)
  next
    case (Some u)
    with JObj assms have "nullish u" by (simp add: no_user_def)
    with JObj Some assms show ?thesis by (cases u) (simp_all add: try_block_def)
  qed
qed (insert assms, simp_all add: try_block_def)

section \<open>Sign-in: success, cleanup and failure\<close>

text \<open>
  C1. After a successful response (HTTP ok) whose body holds a \<^verbatim>\<open>user\<close> object, the local
  name is the response's \<^verbatim>\<open>user.full_name\<close> and the local email its \<^verbatim>\<open>user.email\<close>
  (\<^verbatim>\<open>undefined\<close> where the object has no such property), and phone, join date, experience
  level, favourite method and avatar are those of before the call.
\<close>

theorem login_success_updates_name_email:
  assumes "fetch (google_request idToken) = Inr response" and "ok response"
    and "json response = Inr (JObj body)" and "map_of body ''user'' = Some (JObj user)"
  shows "getProp eng (JObj user) ''full_name''
           = Inr (name (localUserData (fst (snd (handleGoogleLogin eng fetch idToken s)))))
       \<and> getProp eng (JObj user) ''email''
           = Inr (email (localUserData (fst (snd (handleGoogleLogin eng fetch idToken s)))))
       \<and> phone (localUserData (fst (snd (handleGoogleLogin eng fetch idToken s))))
           = phone (localUserData s)
       \<and> joinDate (localUserData (fst (snd (handleGoogleLogin eng fetch idToken s))))
           = joinDate (localUserData s)
       \<and> experienceLevel (localUserData (fst (snd (handleGoogleLogin eng fetch idToken s))))
           = experienceLevel (localUserData s)
       \<and> favoriteMethod (localUserData (fst (snd (handleGoogleLogin eng fetch idToken s))))
           = favoriteMethod (localUserData s)
       \<and> avatar (localUserData (fst (snd (handleGoogleLogin eng fetch idToken s))))
           = avatar (localUserData s)"
proof -
  define full_name where
    "full_name = (case map_of user ''full_name'' of None \<Rightarrow> JUndefined | Some v \<Rightarrow> v)"
  define user_email where
    "user_email = (case map_of user ''email'' of None \<Rightarrow> JUndefined | Some v \<Rightarrow> v)"
  have fn: "getProp eng (JObj user) ''full_name'' = Inr full_name"
    by (simp add: full_name_def split: option.splits)
  have em: "getProp eng (JObj user) ''email'' = Inr user_email"
    by (simp add: user_email_def split: option.splits)
  have "getProp eng (JObj body) ''user'' = Inr (JObj user)"
    using assms(4) by simp
  from try_block_ok_user [where fetch = fetch and idToken = idToken and s = s,
      OF assms(1) assms(2) assms(3) this fn em]
  have "localUserData (fst (snd (handleGoogleLogin eng fetch idToken s))) =
      \<lparr>name = full_name, email = user_email,
       phone = phone (localUserData s),
       joinDate = joinDate (localUserData s),
       experienceLevel = experienceLevel (localUserData s),
       favoriteMethod = favoriteMethod (localUserData s),
       avatar = avatar (localUserData s)\<rparr>"
    by (simp add: handleGoogleLogin_unfold)
  with fn em show ?thesis
    by simp
qed

theorem login_success_updates_name_email_witness:
  "name (localUserData (fst (snd (handleGoogleLogin sample_engine
      (respond \<lparr>ok = True, json = Inr (JObj [(''user'',
         JObj [(''full_name'', JStr ''Ana Reyes''), (''email'', JStr ''ana@example.com'')])])\<rparr>)
      ''token'' sample_state)))) = JStr ''Ana Reyes''
   \<and> email (localUserData (fst (snd (handleGoogleLogin sample_engine
      (respond \<lparr>ok = True, json = Inr (JObj [(''user'',
         JObj [(''full_name'', JStr ''Ana Reyes''), (''email'', JStr ''ana@example.com'')])])\<rparr>)
      ''token'' sample_state)))) = JStr ''ana@example.com''
   \<and> phone (localUserData (fst (snd (handleGoogleLogin sample_engine
      (respond \<lparr>ok = True, json = Inr (JObj [(''user'',
         JObj [(''full_name'', JStr ''Ana Reyes''), (''email'', JStr ''ana@example.com'')])])\<rparr>)
      ''token'' sample_state)))) = JStr ''+63 912 345 6789''"
proof -
  let ?user = "[(''full_name'', JStr ''Ana Reyes''), (''email'', JStr ''ana@example.com'')]"
  let ?body = "[(''user'', JObj ?user)]"
  let ?response = "\<lparr>ok = True, json = Inr (JObj ?body)\<rparr>"
  have h1: "respond ?response (google_request ''token'') = Inr ?response"
    by (simp add: respond_def)
  have h2: "ok ?response" by simp
  have h3: "json ?response = Inr (JObj ?body)" by simp
  have h4: "map_of ?body ''user'' = Some (JObj ?user)" by simp
  show ?thesis
    using login_success_updates_name_email
      [where fetch = "respond ?response" and idToken = "''token''" and eng = sample_engine
         and s = sample_state, OF h1 h2 h3 h4]
    by (simp add: sample_state_def defaultUserData_def)
qed

text \<open>
  C2. However the attempt goes (the request is rejected, the body does not parse, the
  response is not ok, the response is ok), the handler returns normally, with no error
  leaving it, and the loading flag is false in the state it leaves.
\<close>

theorem login_always_returns_and_clears_loading:
  "fst (handleGoogleLogin eng fetch idToken s) = None
   \<and> isAuthLoading (fst (snd (handleGoogleLogin eng fetch idToken s))) = False"
  by (simp add: handleGoogleLogin_returns handleGoogleLogin_loading)




section \<open>Initials and profile edits\<close>

text \<open>
  C4, as stated, fails, in three ways. A tab is whitespace, so the name \<open>a\<close>, tab, \<open>b\<close> has
  the two whitespace-separated tokens \<open>a\<close> and \<open>b\<close> and the initials \<open>AB\<close>; the function
  cuts at the space character only and gives \<open>A\<close>. The one-word name \<open>U+00DF\<close> (sharp s)
  gives the two characters \<open>SS\<close>, not one. And the function upper-cases after putting the
  first code units together, not before: the two words \<open>U+D801\<close> and \<open>U+DC28\<close>, each half
  a character, give the capital letter \<open>U+10400\<close>, where upper-casing the two first
  characters one by one leaves them as they are.
\<close>

theorem getInitials_tab_counterexample:
  "getInitials sample_engine [0x61, 0x09, 0x62] = [0x41]
   \<and> spec_getInitials sample_engine [0x61, 0x09, 0x62] = [0x41, 0x42]
   \<and> getInitials sample_engine [0xDF] = [0x53, 0x53]
   \<and> getInitials sample_engine [0xD801, 0x20, 0xDC28] = [0xD801, 0xDC00]
   \<and> spec_getInitials sample_engine [0xD801, 0x20, 0xDC28] = [0xD801, 0xDC28]"
  by (simp add: initials_eval spec_getInitials_def whitespace_tokens_def is_whitespace_def
      sample_engine_def)

text \<open>
  C4, amended. For every name string, the function takes the first character (code unit)
  of each non-empty piece of the name between space characters (\<open>U+0020\<close>; no other
  whitespace separates), puts these together in order and upper-cases the result; the
  pieces are the strings without a space that give back the name when joined with
  spaces. On a name of ASCII characters this is the upper-cased first character of each
  space-separated token, in order. The empty name gives the empty string. A non-empty name
  without a space gives the upper-casing of its first character, which is exactly one
  character when that character is ASCII.
\<close>

theorem getInitials_space_tokens:
  "getInitials eng nm = toUpperCase eng (concat (map (take 1) (js_split 0x20 nm)))
   \<and> join_sep 0x20 (js_split 0x20 nm) = nm
   \<and> list_all (\<lambda>p. 0x20 \<notin> set p) (js_split 0x20 nm)
   \<and> (list_all (\<lambda>u. u < 0x80) nm \<longrightarrow>
        getInitials eng nm =
          map (\<lambda>t. if 0x61 \<le> hd t \<and> hd t \<le> 0x7A then hd t - 0x20 else hd t)
            (filter (\<lambda>t. t \<noteq> []) (js_split 0x20 nm)))
   \<and> getInitials eng [] = []
   \<and> (nm \<noteq> [] \<and> 0x20 \<notin> set nm \<longrightarrow> getInitials eng nm = toUpperCase eng [hd nm])
   \<and> (nm \<noteq> [] \<and> 0x20 \<notin> set nm \<and> hd nm < 0x80 \<longrightarrow> length (getInitials eng nm) = 1)"
proof -
  have ascii: "getInitials eng nm =
      map (\<lambda>t. if 0x61 \<le> hd t \<and> hd t \<le> 0x7A then hd t - 0x20 else hd t)
        (filter (\<lambda>t. t \<noteq> []) (js_split 0x20 nm))"
    if "list_all (\<lambda>u. u < 0x80) nm"
  proof -
    have "list_all (\<lambda>u. u < 0x80) (concat (map (take 1) (js_split 0x20 nm)))"
      using that js_split_first_units_subset [of "0x20" nm]
      unfolding list_all_iff by blast
    then have "getInitials eng nm =
        map (\<lambda>u. if 0x61 \<le> u \<and> u \<le> 0x7A then u - 0x20 else u)
          (concat (map (take 1) (js_split 0x20 nm)))"
      unfolding getInitials_unfold by (rule toUpperCase_ascii)
    also have "\<dots> = map (\<lambda>t. if 0x61 \<le> hd t \<and> hd t \<le> 0x7A then hd t - 0x20 else hd t)
        (filter (\<lambda>t. t \<noteq> []) (js_split 0x20 nm))"
      by (rule map_first_units)
    finally show ?thesis .
  qed
  have empty: "getInitials eng [] = []"
    by (simp add: getInitials_unfold toUpperCase_Nil)
  have single: "getInitials eng nm = toUpperCase eng [hd nm]" if "nm \<noteq> []" "0x20 \<notin> set nm"
    using that by (cases nm) (simp_all add: getInitials_unfold js_split_no_sep)
  have one: "length (getInitials eng nm) = 1" if "nm \<noteq> []" "0x20 \<notin> set nm" "hd nm < 0x80"
    using that by (simp add: single toUpperCase_single ascii_unit_upper)
  show ?thesis
    using getInitials_unfold [of eng nm] join_sep_js_split [of "0x20" nm]
      js_split_pieces_no_sep [of "0x20" nm] ascii empty single one
    by blast
qed

theorem getInitials_space_tokens_witness:
  "list_all (\<lambda>u. u < 0x80) (code_units ''ada lovelace'')
   \<and> code_units ''ada lovelace''
       = [0x61, 0x64, 0x61, 0x20, 0x6C, 0x6F, 0x76, 0x65, 0x6C, 0x61, 0x63, 0x65]
   \<and> getInitials sample_engine (code_units ''ada lovelace'') = [0x41, 0x4C]
   \<and> code_units ''ada'' \<noteq> [] \<and> 0x20 \<notin> set (code_units ''ada'') \<and> hd (code_units ''ada'') < 0x80
   \<and> length (getInitials sample_engine (code_units ''ada'')) = 1
   \<and> getInitials sample_engine (code_units ''ada'') = [0x41]"
proof -
  have h1: "list_all (\<lambda>u. u < 0x80) (code_units ''ada lovelace'')"
    by (simp add: code_units_def)
  have h2: "code_units ''ada'' \<noteq> [] \<and> 0x20 \<notin> set (code_units ''ada'')"
    by (simp add: code_units_def)
  have h3: "hd (code_units ''ada'') < 0x80"
    by (simp add: code_units_def)
  note t1 = getInitials_space_tokens [of sample_engine "code_units ''ada lovelace''"]
  note t2 = getInitials_space_tokens [of sample_engine "code_units ''ada''"]
  have "getInitials sample_engine (code_units ''ada lovelace'') =
      map (\<lambda>t. if 0x61 \<le> hd t \<and> hd t \<le> 0x7A then hd t - 0x20 else hd t)
        (filter (\<lambda>t. t \<noteq> []) (js_split 0x20 (code_units ''ada lovelace'')))"
    using t1 h1 by blast
  then have g1: "getInitials sample_engine (code_units ''ada lovelace'') = [0x41, 0x4C]"
    by (simp add: code_units_def)
  have g0: "code_units ''ada lovelace''
      = [0x61, 0x64, 0x61, 0x20, 0x6C, 0x6F, 0x76, 0x65, 0x6C, 0x61, 0x63, 0x65]"
    by (simp add: code_units_def)
  have g2: "length (getInitials sample_engine (code_units ''ada'')) = 1"
    using t2 h2 h3 by blast
  have "getInitials sample_engine (code_units ''ada'') =
      toUpperCase sample_engine [hd (code_units ''ada'')]"
    using t2 h2 by blast
  then have g3: "getInitials sample_engine (code_units ''ada'') = [0x41]"
    by (simp add: code_units_def toUpperCase_def CodePointsToString_def Uppercase_Mapping_def
        UTF16EncodeCodePoint_def)
  show ?thesis
    using h1 h2 h3 g0 g1 g2 g3 by blast
qed

text \<open>
  C5. For every prior state, every field and every new string, the state after the edit
  has the new string in that field and the prior value in every other field; the other
  cells of the component's state are untouched.
\<close>

theorem profile_update_changes_one_field:
  "get_field field (localUserData (fst (handleProfileUpdate props field v s))) = JStr v
   \<and> (k \<noteq> field \<longrightarrow>
          get_field k (localUserData (fst (handleProfileUpdate props field v s)))
            = get_field k (localUserData s))
   \<and> isEditing (fst (handleProfileUpdate props field v s)) = isEditing s
   \<and> formError (fst (handleProfileUpdate props field v s)) = formError s
   \<and> isAuthLoading (fst (handleProfileUpdate props field v s)) = isAuthLoading s"
  by (simp add: handleProfileUpdate_state get_field_spread_with_same get_field_spread_with_other)

theorem profile_update_changes_one_field_witness:
  "Key_name \<noteq> Key_phone
   \<and> get_field Key_phone (localUserData (fst (handleProfileUpdate sample_props Key_phone ''0917'' sample_state)))
       = JStr ''0917''
   \<and> get_field Key_name (localUserData (fst (handleProfileUpdate sample_props Key_phone ''0917'' sample_state)))
       = JStr ''Juan Dela Cruz''"
  using profile_update_changes_one_field
      [where field = Key_phone and k = Key_name and props = sample_props and v = "''0917''"
         and s = sample_state]
  by (simp add: sample_state_def defaultUserData_def)

text \<open>
  C6. When the parent supplied the profile-update callback, an edit calls it once, with the
  whole updated record: the record now in the local state, which reads the new string in
  the edited field and the prior value in every other field. When there is no callback,
  nothing is called.
\<close>

theorem profile_update_calls_parent_once:
  "snd (handleProfileUpdate (props\<lparr>onUpdateProfile := Some cb\<rparr>) field v s)
     = [(cb, localUserData (fst (handleProfileUpdate (props\<lparr>onUpdateProfile := Some cb\<rparr>) field v s)))]
   \<and> get_field field
        (localUserData (fst (handleProfileUpdate (props\<lparr>onUpdateProfile := Some cb\<rparr>) field v s)))
       = JStr v
   \<and> (k \<noteq> field \<longrightarrow>
        get_field k
          (localUserData (fst (handleProfileUpdate (props\<lparr>onUpdateProfile := Some cb\<rparr>) field v s)))
          = get_field k (localUserData s))
   \<and> snd (handleProfileUpdate (props\<lparr>onUpdateProfile := Some cb\<rparr>) field v s)
     = [(cb, spread_with (localUserData s) field (JStr v))]
   \<and> snd (handleProfileUpdate (props\<lparr>onUpdateProfile := None\<rparr>) field v s) = []"
proof -
  have calls: "snd (handleProfileUpdate (props\<lparr>onUpdateProfile := Some cb\<rparr>) field v s)
      = [(cb, spread_with (localUserData s) field (JStr v))]"
    and none: "snd (handleProfileUpdate (props\<lparr>onUpdateProfile := None\<rparr>) field v s) = []"
    by (simp_all add: handleProfileUpdate_def Let_def)
  show ?thesis
    unfolding calls none handleProfileUpdate_state
    by (simp add: get_field_spread_with_same get_field_spread_with_other)
qed

theorem profile_update_calls_parent_once_witness:
  "Key_name \<noteq> Key_phone
   \<and> snd (handleProfileUpdate (sample_props\<lparr>onUpdateProfile := Some 7\<rparr>) Key_phone ''0917''
        sample_state)
       = [(7, \<lparr>name = JStr ''Juan Dela Cruz'',
                email = JStr ''juan.delacruz@shroomify.com'',
                phone = JStr ''0917'',
                joinDate = JStr ''January 2024'',
                experienceLevel = JStr ''Intermediate'',
                favoriteMethod = JStr ''Straw Substrate'',
                avatar = JNull\<rparr>)]
   \<and> get_field Key_name (snd (hd (snd (handleProfileUpdate
        (sample_props\<lparr>onUpdateProfile := Some 7\<rparr>) Key_phone ''0917'' sample_state))))
       = JStr ''Juan Dela Cruz''"
proof -
  note t = profile_update_calls_parent_once
    [where props = sample_props and cb = 7 and field = Key_phone and k = Key_name
       and v = "''0917''" and s = sample_state]
  have k: "Key_name \<noteq> Key_phone" by simp
  have st: "localUserData (fst (handleProfileUpdate (sample_props\<lparr>onUpdateProfile := Some 7\<rparr>)
      Key_phone ''0917'' sample_state))
      = \<lparr>name = JStr ''Juan Dela Cruz'',
         email = JStr ''juan.delacruz@shroomify.com'',
         phone = JStr ''0917'',
         joinDate = JStr ''January 2024'',
         experienceLevel = JStr ''Intermediate'',
         favoriteMethod = JStr ''Straw Substrate'',
         avatar = JNull\<rparr>"
    by (simp add: handleProfileUpdate_state sample_state_def defaultUserData_def)
  show ?thesis
    using t k st by simp
qed

section \<open>Activity feed and defaults\<close>

text \<open>
  C7. A scan gets the camera icon and, when green, the green classes for the badge
  background, the text and the icon box; an achievement gets the trophy icon and, when
  yellow, the yellow classes. For each of the three types and each of the four colours both
  lookups find an entry, so every row of the feed renders.
\<close>

theorem activity_icon_and_palette:
  "getActivityIcon scan = \<lparr>component = Some Camera, className = ''w-4 h-4''\<rparr>
   \<and> getStatusColorClasses green
       = Some \<lparr>bg = ''bg-green-600/20'', text_class = ''text-green-400'', iconBg = ''bg-green-600/20''\<rparr>
   \<and> renderActivity (a\<lparr>item_type := scan, statusColor := green\<rparr>)
       = Some \<lparr>row_key = item_id a,
               iconBoxClass = ''w-8 h-8 bg-green-600/20 rounded-full flex items-center justify-center'',
               iconSpanClass = ''text-green-400'',
               row_icon = \<lparr>component = Some Camera, className = ''w-4 h-4''\<rparr>,
               row_title = title a,
               row_time = time a,
               badgeClass = ''bg-green-600/20 text-green-400 px-2 py-1 rounded text-xs'',
               badgeText = status a\<rparr>
   \<and> getActivityIcon achievement = \<lparr>component = Some Trophy, className = ''w-4 h-4''\<rparr>
   \<and> getStatusColorClasses yellow
       = Some \<lparr>bg = ''bg-yellow-600/20'', text_class = ''text-yellow-400'', iconBg = ''bg-yellow-600/20''\<rparr>
   \<and> renderActivity (a\<lparr>item_type := achievement, statusColor := yellow\<rparr>)
       = Some \<lparr>row_key = item_id a,
               iconBoxClass = ''w-8 h-8 bg-yellow-600/20 rounded-full flex items-center justify-center'',
               iconSpanClass = ''text-yellow-400'',
               row_icon = \<lparr>component = Some Trophy, className = ''w-4 h-4''\<rparr>,
               row_title = title a,
               row_time = time a,
               badgeClass = ''bg-yellow-600/20 text-yellow-400 px-2 py-1 rounded text-xs'',
               badgeText = status a\<rparr>
   \<and> (\<forall>t. \<exists>i. component (getActivityIcon t) = Some i)
   \<and> (\<forall>c. \<exists>p. getStatusColorClasses c = Some p)
   \<and> (\<forall>b. \<exists>row. renderActivity b = Some row)"
proof -
  have icons: "\<exists>i. component (getActivityIcon t) = Some i" for t
    by (cases t) (simp_all add: getActivityIcon_def iconMap_def)
  have colors: "\<exists>p. getStatusColorClasses c = Some p" for c
    by (cases c) (simp_all add: getStatusColorClasses_def colorMap_def)
  have rows: "\<exists>row. renderActivity b = Some row" for b
    using colors [of "statusColor b"] by (auto simp add: renderActivity_def)
  have samples:
    "getActivityIcon scan = \<lparr>component = Some Camera, className = ''w-4 h-4''\<rparr>"
    "getStatusColorClasses green
       = Some \<lparr>bg = ''bg-green-600/20'', text_class = ''text-green-400'', iconBg = ''bg-green-600/20''\<rparr>"
    "getActivityIcon achievement = \<lparr>component = Some Trophy, className = ''w-4 h-4''\<rparr>"
    "getStatusColorClasses yellow
       = Some \<lparr>bg = ''bg-yellow-600/20'', text_class = ''text-yellow-400'', iconBg = ''bg-yellow-600/20''\<rparr>"
    by (simp_all add: getActivityIcon_def iconMap_def getStatusColorClasses_def colorMap_def)
  show ?thesis
    using icons colors rows by (simp add: samples renderActivity_def)
qed

text \<open>
  C8, as stated, fails: the default name has three words, and its initials are \<open>JDC\<close>
  (the code units \<open>4A\<close>, \<open>44\<close>, \<open>43\<close>), not \<open>JD\<close>.
\<close>

theorem default_initials_counterexample:
  "renderAvatar sample_engine (initial_state sample_props) = Inr (Placeholder [0x4A, 0x44, 0x43])
   \<and> renderAvatar sample_engine (initial_state sample_props) \<noteq> Inr (Placeholder [0x4A, 0x44])
   \<and> code_units ''JDC'' = [0x4A, 0x44, 0x43]
   \<and> code_units ''JD'' = [0x4A, 0x44]"
  by (simp add: renderAvatar_def initial_state_def sample_props_def defaultUserData_def
      initials_of_default_name) (simp add: code_units_def)

text \<open>
  C8, amended. Without a \<^verbatim>\<open>userData\<close> prop the local user data of the first render is the
  default record, whose name is Juan Dela Cruz, and the avatar placeholder shows the
  initials \<open>JDC\<close> (the code units \<open>4A\<close>, \<open>44\<close>, \<open>43\<close>).
\<close>

theorem default_name_and_initials:
  "localUserData (initial_state (props\<lparr>userData := None\<rparr>)) = defaultUserData
   \<and> name (localUserData (initial_state (props\<lparr>userData := None\<rparr>))) = JStr ''Juan Dela Cruz''
   \<and> renderAvatar eng (initial_state (props\<lparr>userData := None\<rparr>))
       = Inr (Placeholder [0x4A, 0x44, 0x43])
   \<and> code_units ''JDC'' = [0x4A, 0x44, 0x43]"
  by (simp add: renderAvatar_def initial_state_def defaultUserData_def initials_of_default_name)
    (simp add: code_units_def)

section \<open>Sign-in: the request and a missing user\<close>

text \<open>
  C9. Whatever the token, the handler issues one request: to \<^verbatim>\<open>/api/auth/google\<close>, with the
  method \<^verbatim>\<open>POST\<close>, the content type of JSON, and as its body the JSON text of the object
  whose one member \<^verbatim>\<open>id_token\<close> is the token.
\<close>

theorem login_issues_one_post:
  "snd (snd (handleGoogleLogin eng fetch idToken s)) =
     [\<lparr>req_url = ''/api/auth/google'',
       req_method = ''POST'',
       req_headers = [(''Content-Type'', ''application/json'')],
       req_body = JSON_stringify (JObj [(''id_token'', JStr idToken)])\<rparr>]"
  by (simp add: handleGoogleLogin_requests google_request_def)

text \<open>
  C10, as stated, fails: the body \<^verbatim>\<open>{"user": "bob"}\<close> of an ok response holds no user
  object, yet reading a property of a string raises nothing. No message is set, and the
  name and the email are overwritten with \<^verbatim>\<open>undefined\<close>.
\<close>

theorem login_primitive_user_counterexample:
  "formError (fst (snd (handleGoogleLogin sample_engine
      (respond \<lparr>ok = True, json = Inr (JObj [(''user'', JStr ''bob'')])\<rparr>)
      ''token'' sample_state))) = None
   \<and> name (localUserData (fst (snd (handleGoogleLogin sample_engine
      (respond \<lparr>ok = True, json = Inr (JObj [(''user'', JStr ''bob'')])\<rparr>)
      ''token'' sample_state)))) = JUndefined
   \<and> name (localUserData sample_state) = JStr ''Juan Dela Cruz''"
  by (simp add: handleGoogleLogin_def try_block_def catch_block_def finally_block_def
      respond_def sample_state_def defaultUserData_def)

text \<open>
  C10, amended. On an ok response whose body does not parse, or whose parsed body has no
  \<^verbatim>\<open>user\<close> property or a \<^verbatim>\<open>null\<close> one (or is not an object with properties at all), the
  failure is caught in the handler: no error leaves it, a non-empty message is displayed,
  and the local user data is that of before the call.
\<close>

theorem login_missing_user_is_caught:
  assumes "fetch (google_request idToken) = Inr response" and "ok response"
    and "json response = Inl e \<or> (json response = Inr result \<and> no_user result)"
  shows "fst (handleGoogleLogin eng fetch idToken s) = None
       \<and> (\<exists>m. formError (fst (snd (handleGoogleLogin eng fetch idToken s))) = Some m \<and> m \<noteq> [])
       \<and> localUserData (fst (snd (handleGoogleLogin eng fetch idToken s))) = localUserData s"
proof -
  have "\<exists>e'. try_block eng fetch idToken s =
          (Some e', s\<lparr>isAuthLoading := True, formError := None\<rparr>, [google_request idToken])"
    using assms(3)
  proof
    assume "json response = Inl e"
    from try_block_parse_failure [where fetch = fetch and idToken = idToken, OF assms(1) this] show ?thesis by blast
  next
    assume "json response = Inr result \<and> no_user result"
    then show ?thesis using try_block_no_user [where fetch = fetch and idToken = idToken, OF assms(1) assms(2)] by blast
  qed
  then obtain e' where "try_block eng fetch idToken s =
      (Some e', s\<lparr>isAuthLoading := True, formError := None\<rparr>, [google_request idToken])"
    by blast
  then show ?thesis
    by (simp add: handleGoogleLogin_unfold fallback_message_def)
qed

theorem login_missing_user_is_caught_witness:
  "formError (fst (snd (handleGoogleLogin sample_engine
      (respond \<lparr>ok = True, json = Inr (JObj [(''token'', JStr ''abc'')])\<rparr>)
      ''token'' sample_state)))
     = Some ''Cannot read properties of undefined (reading full_name)''
   \<and> localUserData (fst (snd (handleGoogleLogin sample_engine
      (respond \<lparr>ok = True, json = Inr (JObj [(''token'', JStr ''abc'')])\<rparr>)
      ''token'' sample_state))) = defaultUserData
   \<and> formError (fst (snd (handleGoogleLogin sample_engine
      (respond \<lparr>ok = True, json = Inl (JsError ''Unexpected end of JSON input'')\<rparr>)
      ''token'' sample_state)))
     = Some ''Unexpected end of JSON input''
   \<and> localUserData (fst (snd (handleGoogleLogin sample_engine
      (respond \<lparr>ok = True, json = Inl (JsError ''Unexpected end of JSON input'')\<rparr>)
      ''token'' sample_state))) = defaultUserData"
proof -
  let ?r1 = "\<lparr>ok = True, json = Inr (JObj [(''token'', JStr ''abc'')])\<rparr>"
  let ?r2 = "\<lparr>ok = True, json = Inl (JsError ''Unexpected end of JSON input'')\<rparr>"
  have f: "respond r (google_request ''token'') = Inr r" for r
    by (simp add: respond_def)
  have o1: "ok ?r1" and o2: "ok ?r2" by simp_all
  have d1: "json ?r1 = Inl (JsError []) \<or>
      (json ?r1 = Inr (JObj [(''token'', JStr ''abc'')]) \<and> no_user (JObj [(''token'', JStr ''abc'')]))"
    by (simp add: no_user_def)
  have d2: "json ?r2 = Inl (JsError ''Unexpected end of JSON input'') \<or>
      (json ?r2 = Inr JNull \<and> no_user JNull)"
    by simp
  have l: "localUserData sample_state = defaultUserData"
    by (simp add: sample_state_def)
  have m1: "formError (fst (snd (handleGoogleLogin sample_engine (respond ?r1) ''token'' sample_state)))
      = Some ''Cannot read properties of undefined (reading full_name)''"
    by (simp add: handleGoogleLogin_def try_block_def catch_block_def finally_block_def
        respond_def sample_engine_def)
  have m2: "formError (fst (snd (handleGoogleLogin sample_engine (respond ?r2) ''token'' sample_state)))
      = Some ''Unexpected end of JSON input''"
    by (simp add: handleGoogleLogin_def try_block_def catch_block_def finally_block_def
        respond_def)
  show ?thesis
    using login_missing_user_is_caught [where fetch = "respond ?r1" and idToken = "''token''"
        and eng = sample_engine and s = sample_state, OF f o1 d1]
      login_missing_user_is_caught [where fetch = "respond ?r2" and idToken = "''token''"
        and eng = sample_engine and s = sample_state, OF f o2 d2] l m1 m2
    by simp
qed

end
